theory Spec2Isabelle
  imports Main
begin

section \<open>Python values and exceptions\<close>

text \<open>
  The kernel passes untyped dictionaries (\<open>Dict[str, Any]\<close>) around. A dictionary is an
  association list in insertion order, keyed by strings; its values are the Python
  values the code builds.
\<close>

datatype pyval =
    PyNone
  | PyBool bool
  | PyInt int
  | PyStr string
  | PyDict "(string \<times> pyval) list"

type_synonym py_dict = "(string \<times> pyval) list"

section \<open>acp/types.py\<close>

text \<open>The module-level list \<open>ERROR_CODES\<close>, in source order.\<close>

definition ERROR_CODES :: "string list" where
  "ERROR_CODES =
     [''VALIDATION_ERROR'',
      ''INVALID_API_KEY'',
      ''SCOPE_DENIED'',
      ''NOT_FOUND'',
      ''RATE_LIMITED'',
      ''CEILING_EXCEEDED'',
      ''IDEMPOTENT_REPLAY'',
      ''INTERNAL_ERROR'']"

section \<open>acp/usage.py: data\<close>

text \<open>
  The dataclass \<open>UsageResponse\<close>. The field \<open>calls_remaining\<close> is
  \<open>Optional[int]\<close> with default \<open>None\<close>.
\<close>

record UsageResponse =
  tenant_id :: string
  tier :: string
  calls_used :: int
  calls_limit :: int
  period_start :: string
  period_end :: string
  calls_remaining :: "int option"

text \<open>\<open>UsageResponse.__post_init__\<close>: fills \<open>calls_remaining\<close> only when it is \<open>None\<close>.\<close>

definition post_init :: "UsageResponse \<Rightarrow> UsageResponse" where
  "post_init self =
     (if calls_remaining self = None
      then self\<lparr>calls_remaining := Some (max 0 (calls_limit self - calls_used self))\<rparr>
      else self)"

text \<open>
  Constructing a \<open>UsageResponse\<close>: the generated \<open>__init__\<close> stores the seven
  arguments and then runs \<open>__post_init__\<close>.
\<close>

definition new_UsageResponse ::
  "string \<Rightarrow> string \<Rightarrow> int \<Rightarrow> int \<Rightarrow> string \<Rightarrow> string \<Rightarrow> int option \<Rightarrow> UsageResponse" where
  "new_UsageResponse tid tr used lim pstart pend remaining =
     post_init \<lparr>tenant_id = tid, tier = tr, calls_used = used, calls_limit = lim,
                period_start = pstart, period_end = pend, calls_remaining = remaining\<rparr>"

text \<open>
  Exceptions. \<open>UpgradeRequiredError\<close> carries \<open>message\<close>, \<open>usage\<close> and
  \<open>upgrade_url\<close>. \<open>NotImplementedError\<close> is what the router skeleton raises.
  \<open>Exception\<close> stands for an instance of any other subclass of Python's
  \<open>Exception\<close>, \<open>BaseException\<close> for an instance of a class outside
  \<open>Exception\<close> (\<open>KeyboardInterrupt\<close>, \<open>SystemExit\<close>); each carries the text
  that \<open>str(e)\<close> gives.
\<close>

datatype py_exception =
    UpgradeRequiredError string UsageResponse string
  | NotImplementedError string
  | Exception string
  | BaseException string

text \<open>\<open>isinstance(e, UpgradeRequiredError)\<close> and \<open>isinstance(e, Exception)\<close>.\<close>

fun isinstance_UpgradeRequiredError :: "py_exception \<Rightarrow> bool" where
  "isinstance_UpgradeRequiredError (UpgradeRequiredError m u url) = True"
| "isinstance_UpgradeRequiredError e = False"

fun isinstance_Exception :: "py_exception \<Rightarrow> bool" where
  "isinstance_Exception (BaseException m) = False"
| "isinstance_Exception e = True"

text \<open>\<open>str(e)\<close>: the message handed to \<open>Exception.__init__\<close>.\<close>

fun str_exception :: "py_exception \<Rightarrow> string" where
  "str_exception (UpgradeRequiredError m u url) = m"
| "str_exception (NotImplementedError m) = m"
| "str_exception (Exception m) = m"
| "str_exception (BaseException m) = m"

section \<open>String formatting\<close>

text \<open>\<open>str(n)\<close> for a Python integer, as the f-strings of the module use it.\<close>

fun str_nat :: "nat \<Rightarrow> string" where
  "str_nat n =
     (if n < 10 then [''0123456789'' ! n]
      else str_nat (n div 10) @ [''0123456789'' ! (n mod 10)])"

declare str_nat.simps [simp del]

definition str_int :: "int \<Rightarrow> string" where
  "str_int i = (if i < 0 then ''-'' @ str_nat (nat (- i)) else str_nat (nat i))"

text \<open>\<open>str.zfill\<close>, used by the fixed-width fields of \<open>isoformat\<close>.\<close>

definition zfill :: "nat \<Rightarrow> string \<Rightarrow> string" where
  "zfill w s = replicate (w - length s) (CHR ''0'') @ s"

text \<open>
  A timezone-aware \<open>datetime\<close> in UTC, as \<open>datetime.now(timezone.utc)\<close> returns it.
\<close>

record datetime =
  year :: nat
  month :: nat
  day :: nat
  hour :: nat
  minute :: nat
  second :: nat
  microsecond :: nat

text \<open>
  \<open>datetime.isoformat()\<close> for a UTC datetime: the fractional part is printed only
  when \<open>microsecond\<close> is not zero, and the offset is \<open>+00:00\<close>.
\<close>

definition isoformat :: "datetime \<Rightarrow> string" where
  "isoformat d =
     zfill 4 (str_nat (year d)) @ ''-'' @ zfill 2 (str_nat (month d)) @ ''-'' @
     zfill 2 (str_nat (day d)) @ ''T'' @ zfill 2 (str_nat (hour d)) @ '':'' @
     zfill 2 (str_nat (minute d)) @ '':'' @ zfill 2 (str_nat (second d)) @
     (if microsecond d = 0 then [] else ''.'' @ zfill 6 (str_nat (microsecond d))) @
     ''+00:00''"

section \<open>acp/usage.py: the usage governor\<close>

text \<open>
  The control plane is an arbitrary Python object (\<open>Any\<close>). The function looks at
  three things only: its truth value (\<open>not control_plane\<close>), whether it has an
  attribute \<open>get_usage\<close>, and what calling that attribute gives: a
  \<open>UsageResponse\<close>, or an exception. Python's \<open>None\<close> is the value \<open>None\<close> here.
\<close>

type_synonym get_usage_fn = "string \<Rightarrow> string \<Rightarrow> string \<Rightarrow> py_exception + UsageResponse"

record control_plane =
  truthy :: bool
  get_usage :: "get_usage_fn option"

text \<open>
  What a call does besides returning: the attribute inspection
  \<open>hasattr(control_plane, name)\<close>, the backend call
  \<open>control_plane.get_usage(tenant_id, period_start, period_end)\<close>, and the line
  written by \<open>print\<close>, in the order they happen.
\<close>

datatype event =
    HasAttr string
  | GetUsage string string string
  | Print string

fun is_GetUsage :: "event \<Rightarrow> bool" where
  "is_GetUsage (GetUsage t ps pe) = True"
| "is_GetUsage e = False"

text \<open>The default values of the two keyword parameters.\<close>

definition default_free_tier_limit :: int where
  "default_free_tier_limit = 100"

definition default_warning_threshold :: int where
  "default_warning_threshold = 90"

text \<open>
  \<open>enforce_usage_limit\<close>. The clock reading \<open>datetime.now(timezone.utc)\<close> is the last
  argument. The result pairs the events of the call with its outcome: \<open>Inl e\<close> when
  the call raises \<open>e\<close>, \<open>Inr None\<close> when it returns \<open>None\<close>, \<open>Inr (Some w)\<close> when
  it returns the warning dictionary \<open>w\<close>. The \<open>try\<close> body is \<open>body\<close>; the two
  \<open>except\<close> clauses follow it in source order, and an exception that neither clause
  matches leaves the function.
\<close>

definition enforce_usage_limit ::
  "string \<Rightarrow> string \<Rightarrow> control_plane option \<Rightarrow> py_dict \<Rightarrow> int \<Rightarrow> int \<Rightarrow> datetime
     \<Rightarrow> event list \<times> (py_exception + py_dict option)" where
  "enforce_usage_limit tenant_uuid action cp bindings free_tier_limit warning_threshold now =
     (case cp of
        None \<Rightarrow> ([], Inr None)
      | Some control_plane \<Rightarrow>
          if tenant_uuid = [] \<or> \<not> truthy control_plane then ([], Inr None)
          else
            (case get_usage control_plane of
               None \<Rightarrow> ([HasAttr ''get_usage''], Inr None)
             | Some get_usage_method \<Rightarrow>
                 let period_start = isoformat
                       (now\<lparr>day := 1, hour := 0, minute := 0, second := 0, microsecond := 0\<rparr>);
                     period_end = isoformat now;
                     called = [HasAttr ''get_usage'', GetUsage tenant_uuid period_start period_end];
                     body =
                       (case get_usage_method tenant_uuid period_start period_end of
                          Inl e \<Rightarrow> Inl e
                        | Inr usage \<Rightarrow>
                            if tier usage = ''free'' \<and> calls_used usage \<ge> calls_limit usage
                            then
                              let upgrade_url = ''/api/upgrade/checkout?tenant='' @ tenant_uuid
                              in Inl (UpgradeRequiredError
                                       (''Free tier limit reached ('' @ str_int (calls_limit usage) @
                                        '' calls). Add a payment method to continue.'')
                                       usage
                                       upgrade_url)
                            else if tier usage = ''free'' \<and> calls_used usage \<ge> warning_threshold
                            then
                              let calls_remaining = calls_limit usage - calls_used usage;
                                  upgrade_url = ''/api/upgrade/checkout?tenant='' @ tenant_uuid
                              in Inr (Some
                                   [(''message'', PyStr
                                       (''You have '' @ str_int calls_remaining @
                                        '' free calls remaining. Add a payment method to continue after '' @
                                        str_int (calls_limit usage) @ '' calls.'')),
                                    (''upgrade_url'', PyStr upgrade_url),
                                    (''usage'', PyDict
                                       [(''calls_used'', PyInt (calls_used usage)),
                                        (''calls_limit'', PyInt (calls_limit usage)),
                                        (''calls_remaining'', PyInt calls_remaining),
                                        (''tier'', PyStr (tier usage))])])
                            else Inr None)
                 in
                   (case body of
                      Inr r \<Rightarrow> (called, Inr r)
                    | Inl e \<Rightarrow>
                        if isinstance_UpgradeRequiredError e then (called, Inl e)
                        else if isinstance_Exception e then
                          (called @
                             [Print (''[USAGE] Usage check failed: '' @ str_exception e @
                                     '', allowing request to proceed'')],
                           Inr None)
                        else (called, Inl e))))"

text \<open>
  A backend whose \<open>get_usage\<close> answers every query with the same result \<open>r\<close>: a
  usage record, or an exception that the call raises.
\<close>

definition backend_answering :: "py_exception + UsageResponse \<Rightarrow> get_usage_fn" where
  "backend_answering r tenant pstart pend = r"

section \<open>acp/router.py\<close>

text \<open>
  \<open>create_manage_router\<close>. The adapters and the packs are untyped (\<open>Any\<close>); the
  declared result is a function from a request and its metadata to a response, all
  three dictionaries. The body is the single \<open>raise\<close> statement.
\<close>

definition create_manage_router ::
  "'db \<Rightarrow> 'audit \<Rightarrow> 'idem \<Rightarrow> 'rate \<Rightarrow> 'ceil \<Rightarrow> py_dict \<Rightarrow> 'pack list
     \<Rightarrow> py_exception + (py_dict \<Rightarrow> py_dict \<Rightarrow> py_dict)" where
  "create_manage_router db_adapter audit_adapter idempotency_adapter rate_limit_adapter
       ceilings_adapter bindings packs =
     Inl (NotImplementedError
       ''kernel-py is a skeleton. Implement router to pass spec conformance tests.'')"

section \<open>Inputs used to state and to exercise the properties\<close>

text \<open>
  The answer of the backend to the one query a call sends at clock reading \<open>now\<close>:
  the tenant, the first instant of the current month, and the current instant.
\<close>

definition usage_query :: "get_usage_fn \<Rightarrow> string \<Rightarrow> datetime \<Rightarrow> py_exception + UsageResponse" where
  "usage_query g tenant now =
     g tenant
       (isoformat (now\<lparr>day := 1, hour := 0, minute := 0, second := 0, microsecond := 0\<rparr>))
       (isoformat now)"

text \<open>A clock reading, a usage record of tenant \<open>t1\<close>, and a control plane with a fixed answer.\<close>

definition clock0 :: datetime where
  "clock0 = \<lparr>year = 2026, month = 3, day = 17, hour = 9, minute = 5, second = 7, microsecond = 0\<rparr>"

definition usage_of :: "string \<Rightarrow> int \<Rightarrow> int \<Rightarrow> UsageResponse" where
  "usage_of tr used lim =
     new_UsageResponse ''t1'' tr used lim
       ''2026-03-01T00:00:00+00:00'' ''2026-03-17T09:05:07+00:00'' None"

definition plane_answering :: "py_exception + UsageResponse \<Rightarrow> control_plane" where
  "plane_answering r = \<lparr>truthy = True, get_usage = Some (backend_answering r)\<rparr>"

definition plane_without_usage :: control_plane where
  "plane_without_usage = \<lparr>truthy = True, get_usage = None\<rparr>"

section \<open>Auxiliary facts\<close>

lemma usage_query_backend_answering [simp]: "usage_query (backend_answering r) t n = r"
  by (simp add: usage_query_def backend_answering_def)

lemma plane_answering_simps [simp]:
  "truthy (plane_answering r) = True"
  "get_usage (plane_answering r) = Some (backend_answering r)"
  by (simp_all add: plane_answering_def)

lemma plane_without_usage_simps [simp]:
  "truthy plane_without_usage = True"
  "get_usage plane_without_usage = None"
  by (simp_all add: plane_without_usage_def)

lemma usage_of_simps [simp]:
  "tier (usage_of tr used lim) = tr"
  "calls_used (usage_of tr used lim) = used"
  "calls_limit (usage_of tr used lim) = lim"
  by (simp_all add: usage_of_def new_UsageResponse_def post_init_def)

lemma str_int_small [simp]:
  "str_int 1 = ''1''"
  "str_int 5 = ''5''"
  "str_int 100 = ''100''"
  by (simp_all add: str_int_def str_nat.simps)

text \<open>The outcome of a call whose query was answered with a usage record.\<close>

lemma enforce_on_usage:
  assumes "tenant_uuid \<noteq> []" "truthy cp" "get_usage cp = Some g"
    and "usage_query g tenant_uuid now = Inr usage"
  shows "snd (enforce_usage_limit tenant_uuid action (Some cp) bindings ftl wt now) =
     (if tier usage = ''free'' \<and> calls_limit usage \<le> calls_used usage
      then Inl (UpgradeRequiredError
                 (''Free tier limit reached ('' @ str_int (calls_limit usage) @
                  '' calls). Add a payment method to continue.'')
                 usage (''/api/upgrade/checkout?tenant='' @ tenant_uuid))
      else if tier usage = ''free'' \<and> wt \<le> calls_used usage
      then Inr (Some
             [(''message'', PyStr
                 (''You have '' @ str_int (calls_limit usage - calls_used usage) @
                  '' free calls remaining. Add a payment method to continue after '' @
                  str_int (calls_limit usage) @ '' calls.'')),
              (''upgrade_url'', PyStr (''/api/upgrade/checkout?tenant='' @ tenant_uuid)),
              (''usage'', PyDict
                 [(''calls_used'', PyInt (calls_used usage)),
                  (''calls_limit'', PyInt (calls_limit usage)),
                  (''calls_remaining'', PyInt (calls_limit usage - calls_used usage)),
                  (''tier'', PyStr (tier usage))])])
      else Inr None)"
  using assms by (simp add: enforce_usage_limit_def usage_query_def Let_def)

text \<open>The outcome and the events of a call whose query raised.\<close>

lemma enforce_on_exception:
  assumes "tenant_uuid \<noteq> []" "truthy cp" "get_usage cp = Some g"
    and "usage_query g tenant_uuid now = Inl e"
  shows "enforce_usage_limit tenant_uuid action (Some cp) bindings ftl wt now =
     (if isinstance_UpgradeRequiredError e \<or> \<not> isinstance_Exception e
      then ([HasAttr ''get_usage'',
             GetUsage tenant_uuid
               (isoformat (now\<lparr>day := 1, hour := 0, minute := 0, second := 0, microsecond := 0\<rparr>))
               (isoformat now)], Inl e)
      else ([HasAttr ''get_usage'',
             GetUsage tenant_uuid
               (isoformat (now\<lparr>day := 1, hour := 0, minute := 0, second := 0, microsecond := 0\<rparr>))
               (isoformat now),
             Print (''[USAGE] Usage check failed: '' @ str_exception e @
                    '', allowing request to proceed'')], Inr None))"
  using assms by (simp add: enforce_usage_limit_def usage_query_def Let_def)

text \<open>An exception outside \<open>Exception\<close> raised by the backend leaves the function as well.\<close>

lemma enforce_BaseException_propagates:
  "snd (enforce_usage_limit ''t1'' ''deploy'' (Some (plane_answering (Inl (BaseException ''interrupt''))))
          [] default_free_tier_limit default_warning_threshold clock0) =
     Inl (BaseException ''interrupt'')"
  by (simp add: enforce_on_exception [where g = "backend_answering (Inl (BaseException ''interrupt''))"])

section \<open>The error-code list\<close>

text \<open>
  C1. The claim asks that a code is in \<open>ERROR_CODES\<close> exactly when it is one of nine
  names, \<open>UPGRADE_REQUIRED\<close> among them. The list of the source holds eight codes:
  \<open>UPGRADE_REQUIRED\<close>, the code that the usage module documents for a blocked
  request, is not a member.
\<close>

theorem ERROR_CODES_lacks_UPGRADE_REQUIRED:
  "''UPGRADE_REQUIRED'' \<notin> set ERROR_CODES \<and>
   set ERROR_CODES =
     {''VALIDATION_ERROR'', ''INVALID_API_KEY'', ''SCOPE_DENIED'', ''NOT_FOUND'',
      ''RATE_LIMITED'', ''CEILING_EXCEEDED'', ''IDEMPOTENT_REPLAY'', ''INTERNAL_ERROR''}"
  by (simp add: ERROR_CODES_def)

section \<open>The router entry point\<close>

text \<open>
  C2. The claim asks that \<open>create_manage_router\<close> returns a router function for every
  set of adapters, bindings and packs. The function of the source raises
  \<open>NotImplementedError\<close> on every input and never returns a router.
\<close>

theorem create_manage_router_raises:
  "create_manage_router db_adapter audit_adapter idempotency_adapter rate_limit_adapter
       ceilings_adapter bindings packs =
     Inl (NotImplementedError
       ''kernel-py is a skeleton. Implement router to pass spec conformance tests.'')"
  by (simp add: create_manage_router_def)

section \<open>The usage governor\<close>

text \<open>
  C3. When the usage query succeeds (the tenant is not empty, the control plane is
  truthy and has \<open>get_usage\<close>, and the call returned the record \<open>usage\<close>), the
  governor raises exactly when \<open>usage\<close> has tier \<open>free\<close> and
  \<open>calls_used \<ge> calls_limit\<close>. The exception raised is an \<open>UpgradeRequiredError\<close>
  that carries the upgrade URL of the tenant and the very record the backend
  returned; in every other case after a successful query nothing is raised.
\<close>

theorem enforce_usage_limit_blocks_iff:
  assumes "tenant_uuid \<noteq> []" "truthy cp" "get_usage cp = Some g"
    and "usage_query g tenant_uuid now = Inr usage"
  shows "(tier usage = ''free'' \<and> calls_used usage \<ge> calls_limit usage \<longrightarrow>
            snd (enforce_usage_limit tenant_uuid action (Some cp) bindings ftl wt now) =
              Inl (UpgradeRequiredError
                 (''Free tier limit reached ('' @ str_int (calls_limit usage) @
                  '' calls). Add a payment method to continue.'')
                 usage (''/api/upgrade/checkout?tenant='' @ tenant_uuid)))
       \<and> (\<not> (tier usage = ''free'' \<and> calls_used usage \<ge> calls_limit usage) \<longrightarrow>
            \<not> isl (snd (enforce_usage_limit tenant_uuid action (Some cp) bindings ftl wt now)))"
  by (simp add: enforce_on_usage [OF assms])

text \<open>At 100 of 100 calls the free tenant \<open>t1\<close> is blocked.\<close>

theorem enforce_usage_limit_blocks_iff_witness:
  "''t1'' \<noteq> [] \<and> truthy (plane_answering (Inr (usage_of ''free'' 100 100)))
   \<and> get_usage (plane_answering (Inr (usage_of ''free'' 100 100))) =
        Some (backend_answering (Inr (usage_of ''free'' 100 100)))
   \<and> usage_query (backend_answering (Inr (usage_of ''free'' 100 100))) ''t1'' clock0 =
        Inr (usage_of ''free'' 100 100)
   \<and> tier (usage_of ''free'' 100 100) = ''free''
   \<and> calls_used (usage_of ''free'' 100 100) \<ge> calls_limit (usage_of ''free'' 100 100)
   \<and> snd (enforce_usage_limit ''t1'' ''deploy'' (Some (plane_answering (Inr (usage_of ''free'' 100 100))))
            [] default_free_tier_limit default_warning_threshold clock0) =
        Inl (UpgradeRequiredError
               ''Free tier limit reached (100 calls). Add a payment method to continue.''
               (usage_of ''free'' 100 100) ''/api/upgrade/checkout?tenant=t1'')"
  using enforce_usage_limit_blocks_iff
    [of "''t1''" "plane_answering (Inr (usage_of ''free'' 100 100))"
        "backend_answering (Inr (usage_of ''free'' 100 100))" clock0 "usage_of ''free'' 100 100"
        "''deploy''" "[]" default_free_tier_limit default_warning_threshold]
  by simp

text \<open>
  C4. After a successful query, a free-tier tenant whose \<open>calls_used\<close> has reached
  the configured warning threshold but is still below \<open>calls_limit\<close> is not blocked:
  the call returns a warning dictionary with the upgrade URL and a \<open>usage\<close> entry
  whose \<open>calls_remaining\<close> is \<open>calls_limit - calls_used\<close>. With the default
  threshold 90, limit 100 and 95 calls used the warning reports
  \<open>calls_remaining = 5\<close>.
\<close>

theorem enforce_usage_limit_warns_near_limit:
  assumes "tenant_uuid \<noteq> []" "truthy cp" "get_usage cp = Some g"
    and "usage_query g tenant_uuid now = Inr usage"
    and "tier usage = ''free''"
    and "warning_threshold \<le> calls_used usage" "calls_used usage < calls_limit usage"
  shows "\<exists>w d. snd (enforce_usage_limit tenant_uuid action (Some cp) bindings ftl
                     warning_threshold now) = Inr (Some w)
           \<and> map_of w ''upgrade_url'' = Some (PyStr (''/api/upgrade/checkout?tenant='' @ tenant_uuid))
           \<and> map_of w ''usage'' = Some (PyDict d)
           \<and> map_of d ''calls_used'' = Some (PyInt (calls_used usage))
           \<and> map_of d ''calls_limit'' = Some (PyInt (calls_limit usage))
           \<and> map_of d ''calls_remaining'' = Some (PyInt (calls_limit usage - calls_used usage))
           \<and> map_of d ''tier'' = Some (PyStr ''free'')"
  using assms(5-7) by (simp add: enforce_on_usage [OF assms(1-4)])

text \<open>The instance of the specification: 95 of 100 calls used.\<close>

theorem enforce_usage_limit_warns_near_limit_witness:
  "''t1'' \<noteq> [] \<and> truthy (plane_answering (Inr (usage_of ''free'' 95 100)))
   \<and> get_usage (plane_answering (Inr (usage_of ''free'' 95 100))) =
        Some (backend_answering (Inr (usage_of ''free'' 95 100)))
   \<and> usage_query (backend_answering (Inr (usage_of ''free'' 95 100))) ''t1'' clock0 =
        Inr (usage_of ''free'' 95 100)
   \<and> tier (usage_of ''free'' 95 100) = ''free''
   \<and> default_warning_threshold \<le> calls_used (usage_of ''free'' 95 100)
   \<and> calls_used (usage_of ''free'' 95 100) < calls_limit (usage_of ''free'' 95 100)
   \<and> (\<exists>w d. snd (enforce_usage_limit ''t1'' ''deploy''
                    (Some (plane_answering (Inr (usage_of ''free'' 95 100))))
                    [] default_free_tier_limit default_warning_threshold clock0) = Inr (Some w)
           \<and> map_of w ''usage'' = Some (PyDict d)
           \<and> map_of d ''calls_remaining'' = Some (PyInt 5))"
  using enforce_usage_limit_warns_near_limit
    [of "''t1''" "plane_answering (Inr (usage_of ''free'' 95 100))"
        "backend_answering (Inr (usage_of ''free'' 95 100))" clock0 "usage_of ''free'' 95 100"
        default_warning_threshold "''deploy''" "[]" default_free_tier_limit]
  by (auto simp add: default_warning_threshold_def)

text \<open>
  C5. As stated, for every exception raised by \<open>get_usage\<close>, the claim fails: an
  \<open>UpgradeRequiredError\<close> raised by the backend itself meets the clause
  \<open>except UpgradeRequiredError: raise\<close> and leaves the function.
\<close>

theorem backend_UpgradeRequiredError_not_swallowed:
  "snd (enforce_usage_limit ''t1'' ''deploy''
          (Some (plane_answering
             (Inl (UpgradeRequiredError ''quota'' (usage_of ''free'' 10 100) ''/billing''))))
          [] default_free_tier_limit default_warning_threshold clock0) =
     Inl (UpgradeRequiredError ''quota'' (usage_of ''free'' 10 100) ''/billing'')
   \<and> snd (enforce_usage_limit ''t1'' ''deploy''
          (Some (plane_answering
             (Inl (UpgradeRequiredError ''quota'' (usage_of ''free'' 10 100) ''/billing''))))
          [] default_free_tier_limit default_warning_threshold clock0) \<noteq> Inr None"
  by (simp add: enforce_on_exception
        [where g = "backend_answering
           (Inl (UpgradeRequiredError ''quota'' (usage_of ''free'' 10 100) ''/billing''))"])

text \<open>
  C5, amended. Every exception raised by \<open>get_usage\<close> that is an instance of
  \<open>Exception\<close> and not an \<open>UpgradeRequiredError\<close> is caught: the call returns
  \<open>None\<close> (no warning, no error), and the last thing it does is print the failure.
\<close>

theorem enforce_usage_limit_fails_open:
  assumes "tenant_uuid \<noteq> []" "truthy cp" "get_usage cp = Some g"
    and "usage_query g tenant_uuid now = Inl e"
    and "isinstance_Exception e" "\<not> isinstance_UpgradeRequiredError e"
  shows "snd (enforce_usage_limit tenant_uuid action (Some cp) bindings ftl wt now) = Inr None
       \<and> last (fst (enforce_usage_limit tenant_uuid action (Some cp) bindings ftl wt now)) =
           Print (''[USAGE] Usage check failed: '' @ str_exception e @
                  '', allowing request to proceed'')"
  using assms(5,6) by (simp add: enforce_on_exception [OF assms(1-4)])

text \<open>A backend that times out.\<close>

theorem enforce_usage_limit_fails_open_witness:
  "''t1'' \<noteq> [] \<and> truthy (plane_answering (Inl (Exception ''timed out'')))
   \<and> get_usage (plane_answering (Inl (Exception ''timed out''))) =
        Some (backend_answering (Inl (Exception ''timed out'')))
   \<and> usage_query (backend_answering (Inl (Exception ''timed out''))) ''t1'' clock0 =
        Inl (Exception ''timed out'')
   \<and> isinstance_Exception (Exception ''timed out'')
   \<and> \<not> isinstance_UpgradeRequiredError (Exception ''timed out'')
   \<and> snd (enforce_usage_limit ''t1'' ''deploy'' (Some (plane_answering (Inl (Exception ''timed out''))))
            [] default_free_tier_limit default_warning_threshold clock0) = Inr None
   \<and> last (fst (enforce_usage_limit ''t1'' ''deploy''
            (Some (plane_answering (Inl (Exception ''timed out''))))
            [] default_free_tier_limit default_warning_threshold clock0)) =
        Print ''[USAGE] Usage check failed: timed out, allowing request to proceed''"
  using enforce_usage_limit_fails_open
    [of "''t1''" "plane_answering (Inl (Exception ''timed out''))"
        "backend_answering (Inl (Exception ''timed out''))" clock0 "Exception ''timed out''"
        "''deploy''" "[]" default_free_tier_limit default_warning_threshold]
  by simp

text \<open>
  C6. As stated, for every construction of a \<open>UsageResponse\<close>, the claim fails:
  \<open>__post_init__\<close> computes \<open>calls_remaining\<close> only when none was passed, so a
  record built with \<open>calls_remaining = -5\<close>, \<open>calls_used = 10\<close> and
  \<open>calls_limit = 100\<close> keeps \<open>-5\<close>.
\<close>

theorem explicit_calls_remaining_kept:
  "calls_remaining (new_UsageResponse ''t1'' ''free'' 10 100
       ''2026-03-01T00:00:00+00:00'' ''2026-03-17T09:05:07+00:00'' (Some (- 5))) = Some (- 5)
   \<and> calls_remaining (new_UsageResponse ''t1'' ''free'' 10 100
       ''2026-03-01T00:00:00+00:00'' ''2026-03-17T09:05:07+00:00'' (Some (- 5)))
     \<noteq> Some (max 0
          (calls_limit (new_UsageResponse ''t1'' ''free'' 10 100
             ''2026-03-01T00:00:00+00:00'' ''2026-03-17T09:05:07+00:00'' (Some (- 5)))
           - calls_used (new_UsageResponse ''t1'' ''free'' 10 100
             ''2026-03-01T00:00:00+00:00'' ''2026-03-17T09:05:07+00:00'' (Some (- 5)))))"
  by (simp add: new_UsageResponse_def post_init_def)

text \<open>
  C6, amended. A \<open>UsageResponse\<close> constructed without \<open>calls_remaining\<close> has
  \<open>calls_remaining = max(0, calls_limit - calls_used)\<close>, which is never negative; a
  \<open>calls_remaining\<close> passed to the constructor is stored as given. Construction
  changes neither \<open>calls_used\<close> nor \<open>calls_limit\<close>.
\<close>

theorem new_UsageResponse_calls_remaining:
  "calls_remaining (new_UsageResponse tid tr used lim pstart pend None) = Some (max 0 (lim - used))
   \<and> (\<exists>r. calls_remaining (new_UsageResponse tid tr used lim pstart pend None) = Some r \<and> 0 \<le> r)
   \<and> calls_remaining (new_UsageResponse tid tr used lim pstart pend (Some given)) = Some given
   \<and> calls_used (new_UsageResponse tid tr used lim pstart pend remaining) = used
   \<and> calls_limit (new_UsageResponse tid tr used lim pstart pend remaining) = lim"
  by (simp add: new_UsageResponse_def post_init_def)

text \<open>Usage above the limit, usage below it, and a value passed in.\<close>

theorem new_UsageResponse_calls_remaining_witness:
  "calls_remaining (new_UsageResponse ''t1'' ''free'' 120 100
       ''2026-03-01T00:00:00+00:00'' ''2026-03-17T09:05:07+00:00'' None) = Some 0
   \<and> calls_remaining (new_UsageResponse ''t1'' ''free'' 95 100
       ''2026-03-01T00:00:00+00:00'' ''2026-03-17T09:05:07+00:00'' None) = Some 5
   \<and> calls_remaining (new_UsageResponse ''t1'' ''free'' 95 100
       ''2026-03-01T00:00:00+00:00'' ''2026-03-17T09:05:07+00:00'' (Some 7)) = Some 7"
  using new_UsageResponse_calls_remaining
      [of "''t1''" "''free''" 120 100 "''2026-03-01T00:00:00+00:00''" "''2026-03-17T09:05:07+00:00''"]
    new_UsageResponse_calls_remaining
      [of "''t1''" "''free''" 95 100 "''2026-03-01T00:00:00+00:00''" "''2026-03-17T09:05:07+00:00''" 7]
  by simp

text \<open>
  C7. When the control-plane reference is absent (\<open>None\<close>) or the control plane has
  no \<open>get_usage\<close>, the governor does nothing for every tenant and action: it returns
  \<open>None\<close>, raises nothing, and sends no query to a backend.
\<close>

theorem enforce_usage_limit_noop_without_backend:
  assumes "cp = None \<or> (\<exists>c. cp = Some c \<and> get_usage c = None)"
  shows "snd (enforce_usage_limit tenant_uuid action cp bindings ftl wt now) = Inr None
       \<and> filter is_GetUsage (fst (enforce_usage_limit tenant_uuid action cp bindings ftl wt now)) = []"
  using assms by (auto simp: enforce_usage_limit_def)

text \<open>A control plane without the capability, and no control plane at all.\<close>

theorem enforce_usage_limit_noop_without_backend_witness:
  "(Some plane_without_usage = None \<or>
      (\<exists>c. Some plane_without_usage = Some c \<and> get_usage c = None))
   \<and> snd (enforce_usage_limit ''t1'' ''deploy'' (Some plane_without_usage)
            [] default_free_tier_limit default_warning_threshold clock0) = Inr None
   \<and> filter is_GetUsage (fst (enforce_usage_limit ''t1'' ''deploy'' (Some plane_without_usage)
            [] default_free_tier_limit default_warning_threshold clock0)) = []
   \<and> snd (enforce_usage_limit ''t1'' ''deploy'' None
            [] default_free_tier_limit default_warning_threshold clock0) = Inr None
   \<and> filter is_GetUsage (fst (enforce_usage_limit ''t1'' ''deploy'' None
            [] default_free_tier_limit default_warning_threshold clock0)) = []"
  using enforce_usage_limit_noop_without_backend
      [of "Some plane_without_usage" "''t1''" "''deploy''" "[]"
          default_free_tier_limit default_warning_threshold clock0]
    enforce_usage_limit_noop_without_backend
      [of None "''t1''" "''deploy''" "[]"
          default_free_tier_limit default_warning_threshold clock0]
  by simp

text \<open>
  C8. As stated, the request path never inspects the control plane at run time, the
  claim fails: a call of \<open>enforce_usage_limit\<close> evaluates
  \<open>hasattr(control_plane, 'get_usage')\<close>, whether or not the attribute is there.
\<close>

theorem request_path_inspects_control_plane:
  "HasAttr ''get_usage'' \<in> set (fst (enforce_usage_limit ''t1'' ''deploy'' (Some plane_without_usage)
       [] default_free_tier_limit default_warning_threshold clock0))
   \<and> HasAttr ''get_usage'' \<in> set (fst (enforce_usage_limit ''t1'' ''deploy''
       (Some (plane_answering (Inr (usage_of ''paid'' 3 100))))
       [] default_free_tier_limit default_warning_threshold clock0))"
  by (simp add: enforce_usage_limit_def Let_def backend_answering_def split: sum.splits)

text \<open>
  C8, amended. The usage capability is detected on each call: every call of
  \<open>enforce_usage_limit\<close> with a non-empty tenant and a truthy control plane first
  evaluates \<open>hasattr(control_plane, 'get_usage')\<close>, and it queries the backend
  exactly when the attribute is present.
\<close>

theorem capability_detected_per_call:
  assumes "tenant_uuid \<noteq> []" "truthy cp"
  shows "(\<exists>rest. fst (enforce_usage_limit tenant_uuid action (Some cp) bindings ftl wt now) =
            HasAttr ''get_usage'' # rest)
       \<and> ((filter is_GetUsage
              (fst (enforce_usage_limit tenant_uuid action (Some cp) bindings ftl wt now)) \<noteq> [])
            = (get_usage cp \<noteq> None))"
  using assms
  by (auto simp: enforce_usage_limit_def Let_def split: option.splits sum.splits)

text \<open>A call on a control plane that lacks the attribute.\<close>

theorem capability_detected_per_call_witness:
  "''t1'' \<noteq> [] \<and> truthy plane_without_usage
   \<and> (\<exists>rest. fst (enforce_usage_limit ''t1'' ''deploy'' (Some plane_without_usage)
            [] default_free_tier_limit default_warning_threshold clock0) =
            HasAttr ''get_usage'' # rest)
   \<and> filter is_GetUsage (fst (enforce_usage_limit ''t1'' ''deploy'' (Some plane_without_usage)
            [] default_free_tier_limit default_warning_threshold clock0)) = []"
  using capability_detected_per_call
    [of "''t1''" plane_without_usage "''deploy''" "[]"
        default_free_tier_limit default_warning_threshold clock0]
  by simp

text \<open>
  C9. Every warning dictionary that \<open>enforce_usage_limit\<close> returns, on any input,
  has a \<open>usage\<close> entry whose \<open>calls_remaining\<close> is at least 1.
\<close>

theorem enforce_usage_limit_warning_remaining_positive:
  assumes "snd (enforce_usage_limit tenant_uuid action cp bindings ftl wt now) = Inr (Some w)"
  shows "\<exists>d r. map_of w ''usage'' = Some (PyDict d) \<and>
               map_of d ''calls_remaining'' = Some (PyInt r) \<and> 1 \<le> r"
  using assms
  by (auto simp: enforce_usage_limit_def Let_def split: option.splits sum.splits if_splits)

text \<open>At 99 of 100 calls the warning reports one call remaining.\<close>

theorem enforce_usage_limit_warning_remaining_positive_witness:
  "snd (enforce_usage_limit ''t1'' ''deploy'' (Some (plane_answering (Inr (usage_of ''free'' 99 100))))
          [] default_free_tier_limit default_warning_threshold clock0) =
     Inr (Some
       [(''message'', PyStr
           ''You have 1 free calls remaining. Add a payment method to continue after 100 calls.''),
        (''upgrade_url'', PyStr ''/api/upgrade/checkout?tenant=t1''),
        (''usage'', PyDict
           [(''calls_used'', PyInt 99), (''calls_limit'', PyInt 100),
            (''calls_remaining'', PyInt 1), (''tier'', PyStr ''free'')])])
   \<and> (\<exists>d r. map_of
          [(''message'', PyStr
              ''You have 1 free calls remaining. Add a payment method to continue after 100 calls.''),
           (''upgrade_url'', PyStr ''/api/upgrade/checkout?tenant=t1''),
           (''usage'', PyDict
              [(''calls_used'', PyInt 99), (''calls_limit'', PyInt 100),
               (''calls_remaining'', PyInt 1), (''tier'', PyStr ''free'')])] ''usage'' = Some (PyDict d)
        \<and> map_of d ''calls_remaining'' = Some (PyInt r) \<and> 1 \<le> r)"
proof -
  have call: "snd (enforce_usage_limit ''t1'' ''deploy''
                (Some (plane_answering (Inr (usage_of ''free'' 99 100))))
                [] default_free_tier_limit default_warning_threshold clock0) =
     Inr (Some
       [(''message'', PyStr
           ''You have 1 free calls remaining. Add a payment method to continue after 100 calls.''),
        (''upgrade_url'', PyStr ''/api/upgrade/checkout?tenant=t1''),
        (''usage'', PyDict
           [(''calls_used'', PyInt 99), (''calls_limit'', PyInt 100),
            (''calls_remaining'', PyInt 1), (''tier'', PyStr ''free'')])])"
    by (simp add: enforce_on_usage [where g = "backend_answering (Inr (usage_of ''free'' 99 100))"]
          default_warning_threshold_def)
  from call enforce_usage_limit_warning_remaining_positive [OF call]
  show ?thesis by simp
qed

text \<open>
  C10. After a successful query that reports a tier other than \<open>free\<close>, the
  governor returns \<open>None\<close>: no exception and no warning, whatever \<open>calls_used\<close>
  and \<open>calls_limit\<close> are.
\<close>

theorem enforce_usage_limit_paid_never_blocked:
  assumes "tenant_uuid \<noteq> []" "truthy cp" "get_usage cp = Some g"
    and "usage_query g tenant_uuid now = Inr usage"
    and "tier usage \<noteq> ''free''"
  shows "snd (enforce_usage_limit tenant_uuid action (Some cp) bindings ftl wt now) = Inr None"
  using assms(5) by (simp add: enforce_on_usage [OF assms(1-4)])

text \<open>A paid tenant far above its limit.\<close>

theorem enforce_usage_limit_paid_never_blocked_witness:
  "''t1'' \<noteq> [] \<and> truthy (plane_answering (Inr (usage_of ''paid'' 5000 100)))
   \<and> get_usage (plane_answering (Inr (usage_of ''paid'' 5000 100))) =
        Some (backend_answering (Inr (usage_of ''paid'' 5000 100)))
   \<and> usage_query (backend_answering (Inr (usage_of ''paid'' 5000 100))) ''t1'' clock0 =
        Inr (usage_of ''paid'' 5000 100)
   \<and> tier (usage_of ''paid'' 5000 100) \<noteq> ''free''
   \<and> snd (enforce_usage_limit ''t1'' ''deploy'' (Some (plane_answering (Inr (usage_of ''paid'' 5000 100))))
            [] default_free_tier_limit default_warning_threshold clock0) = Inr None"
  using enforce_usage_limit_paid_never_blocked
    [of "''t1''" "plane_answering (Inr (usage_of ''paid'' 5000 100))"
        "backend_answering (Inr (usage_of ''paid'' 5000 100))" clock0 "usage_of ''paid'' 5000 100"
        "''deploy''" "[]" default_free_tier_limit default_warning_threshold]
  by simp

end
